theory Spec2Isabelle
  imports Main "HOL-Library.Word"
begin

text \<open>
  A shallow embedding of the Go packages \<open>ghra\<close> (repo-activity/repo-activity.go) and
  \<open>server\<close> (server/server.go). The GitHub client, the clock, the duration formatter and
  the HTML template engine are libraries outside the repository: the client and the
  formatter are parameters of the model, the few library functions whose result decides
  a property (\<open>time.Duration.Round\<close>, \<open>Time.AddDate\<close>, \<open>Time.Format\<close>, \<open>strconv.Atoi\<close>,
  \<open>strings.Join\<close>, \<open>strings.TrimPrefix\<close>, \<open>url.Values.Get\<close>, \<open>http.Error\<close>) are written
  out after their documentation.
\<close>

section \<open>Data model of package ghra (repo-activity/repo-activity.go)\<close>

text \<open>
  The Go structs are records. A pointer field that may be nil (\<open>*int64\<close>, \<open>*string\<close>)
  is an \<open>option\<close>. Go strings are byte strings, that is \<open>string\<close>.
\<close>

record IssueAuthor =
  DisplayName :: "string option"
  ProfileURL :: "string option"

record IssueInfo =
  ID :: "int option"
  Number :: "int option"
  Title :: "string option"
  Author :: IssueAuthor
  Repo :: string
  URL :: "string option"
  Status :: "string option"
  Age :: string

record RepoActivityReport =
  Issues :: "IssueInfo list"
  PullRequests :: "IssueInfo list"

text \<open>
  \<open>map[string]*RepoActivityReport\<close> is a finite map from repository identifiers to
  buckets. Every pointer stored in it is freshly allocated for its key, so no two keys
  share a bucket and the map of bucket values is faithful.
\<close>

type_synonym repo_map = "string \<rightharpoonup> RepoActivityReport"

record ActivityReport =
  RepoActivityReports :: repo_map
  TotalIssues :: int
  TotalPullRequests :: int

section \<open>The aggregation of BuildReport (repo-activity.go, lines 154 to 173)\<close>

text \<open>
  One iteration of the first loop: \<open>if repoReports[i.Repo] == nil\<close> stores an empty
  bucket, then the record is appended to the bucket's \<open>Issues\<close>.
\<close>

definition ensure_bucket :: "repo_map \<Rightarrow> string \<Rightarrow> repo_map" where
  "ensure_bucket repoReports r =
     (if repoReports r = None
      then repoReports(r \<mapsto> \<lparr>Issues = [], PullRequests = []\<rparr>)
      else repoReports)"

definition add_issue :: "repo_map \<Rightarrow> IssueInfo \<Rightarrow> repo_map" where
  "add_issue repoReports i =
     (let m = ensure_bucket repoReports (Repo i) in
      case m (Repo i) of
        None \<Rightarrow> m
      | Some b \<Rightarrow> m(Repo i \<mapsto> b\<lparr>Issues := Issues b @ [i]\<rparr>))"

text \<open>One iteration of the second loop, on \<open>PullRequests\<close>.\<close>

definition add_pr :: "repo_map \<Rightarrow> IssueInfo \<Rightarrow> repo_map" where
  "add_pr repoReports p =
     (let m = ensure_bucket repoReports (Repo p) in
      case m (Repo p) of
        None \<Rightarrow> m
      | Some b \<Rightarrow> m(Repo p \<mapsto> b\<lparr>PullRequests := PullRequests b @ [p]\<rparr>))"

text \<open>
  The two \<open>range\<close> loops run over the slices from left to right, starting from the
  empty map of \<open>make\<close>; the totals are the lengths of the two slices.
\<close>

definition group_records :: "IssueInfo list \<Rightarrow> IssueInfo list \<Rightarrow> repo_map" where
  "group_records issues prs = foldl add_pr (foldl add_issue Map.empty issues) prs"

definition aggregate :: "IssueInfo list \<Rightarrow> IssueInfo list \<Rightarrow> ActivityReport" where
  "aggregate issues prs =
     \<lparr>RepoActivityReports = group_records issues prs,
      TotalIssues = int (length issues),
      TotalPullRequests = int (length prs)\<rparr>"

section \<open>Library functions used by the packages\<close>

subsection \<open>Machine integers\<close>

text \<open>Go's \<open>int\<close> on a 64-bit platform: arithmetic wraps around, \<open>sint\<close> reads the value.\<close>

type_synonym go_int = "64 word"

subsection \<open>Package time\<close>

text \<open>
  An instant is its number of nanoseconds since the Unix epoch together with the offset,
  in seconds east of UTC, that its location has at that instant. A \<open>Duration\<close> is a
  number of nanoseconds in the range of \<open>int64\<close>.
\<close>

record Time =
  unixNano :: int
  zoneOffset :: int

definition Nanosecond :: int where "Nanosecond = 1"
definition Second :: int where "Second = 1000000000 * Nanosecond"
definition Hour :: int where "Hour = 3600 * Second"

definition minDuration :: int where "minDuration = - (2 ^ 63)"
definition maxDuration :: int where "maxDuration = 2 ^ 63 - 1"

text \<open>\<open>t.Sub(u)\<close> saturates at the least and the greatest duration.\<close>

definition Sub :: "Time \<Rightarrow> Time \<Rightarrow> int" where
  "Sub t u = max minDuration (min maxDuration (unixNano t - unixNano u))"

text \<open>Go's \<open>%\<close> truncates towards zero: the remainder has the sign of the dividend.\<close>

definition go_rem :: "int \<Rightarrow> int \<Rightarrow> int" where
  "go_rem a b = sgn a * (\<bar>a\<bar> mod \<bar>b\<bar>)"

definition lessThanHalf :: "int \<Rightarrow> int \<Rightarrow> bool" where
  "lessThanHalf x y = (x + x < y)"

text \<open>
  \<open>d.Round(m)\<close>: the multiple of \<open>m\<close> nearest to \<open>d\<close>, halfway values away from zero;
  the greatest (least) duration when the result would overflow; \<open>d\<close> when \<open>m \<le> 0\<close>.
\<close>

definition Round :: "int \<Rightarrow> int \<Rightarrow> int" where
  "Round d m =
     (if m \<le> 0 then d
      else if d < 0 then
        (let r = - go_rem d m in
         if lessThanHalf r m then d + r
         else if minDuration \<le> d - m + r then d - m + r
         else minDuration)
      else
        (let r = go_rem d m in
         if lessThanHalf r m then d - r
         else if d + m - r \<le> maxDuration then d + m - r
         else maxDuration))"


text \<open>
  The calendar day of an instant in its location, counted from 1970-01-01, and the
  proleptic Gregorian date (year, month, day) of a day number.
\<close>

definition local_day :: "Time \<Rightarrow> int" where
  "local_day t = (unixNano t + zoneOffset t * Second) div (24 * Hour)"

definition civil_from_days :: "int \<Rightarrow> int \<times> int \<times> int" where
  "civil_from_days n =
     (let z = n + 719468;
          era = z div 146097;
          doe = z - era * 146097;
          yoe = (doe - doe div 1460 + doe div 36524 - doe div 146096) div 365;
          doy = doe - (365 * yoe + yoe div 4 - yoe div 100);
          mp = (5 * doy + 2) div 153;
          d = doy - (153 * mp + 2) div 5 + 1;
          m = (if mp < 10 then mp + 3 else mp - 9);
          y = yoe + era * 400 + (if m \<le> 2 then 1 else 0)
      in (y, m, d))"

text \<open>
  \<open>t.AddDate(0, 0, days)\<close> keeps the clock time and moves the calendar date by \<open>days\<close>
  days; the model keeps the day number of the result, which is all that the layout
  \<open>2006-01-02\<close> prints. The calendar arithmetic is taken as exact.
\<close>

definition AddDate_days :: "Time \<Rightarrow> int \<Rightarrow> int" where
  "AddDate_days t days = local_day t + days"

fun itoa :: "nat \<Rightarrow> string" where
  "itoa n = (if n < 10 then [char_of (48 + n)]
             else itoa (n div 10) @ [char_of (48 + n mod 10)])"

declare itoa.simps [simp del]

text \<open>The formatter's \<open>appendInt\<close>: a sign for a negative value, then the digits padded
  with zeros to the width.\<close>

definition appendInt :: "int \<Rightarrow> nat \<Rightarrow> string" where
  "appendInt x width =
     (let ds = itoa (nat \<bar>x\<bar>)
      in (if x < 0 then ''-'' else []) @ replicate (width - length ds) (CHR ''0'') @ ds)"

definition Format_date :: "int \<Rightarrow> string" where
  "Format_date n =
     (case civil_from_days n of
        (y, m, d) \<Rightarrow> appendInt y 4 @ ''-'' @ appendInt m 2 @ ''-'' @ appendInt d 2)"

subsection \<open>Packages strings, strconv and net/url\<close>

fun Join :: "string list \<Rightarrow> string \<Rightarrow> string" where
  "Join [] sep = []"
| "Join [a] sep = a"
| "Join (a # b # r) sep = a @ sep @ Join (b # r) sep"

definition TrimPrefix :: "string \<Rightarrow> string \<Rightarrow> string" where
  "TrimPrefix s pre = (if take (length pre) s = pre then drop (length pre) s else s)"

definition digit_of :: "char \<Rightarrow> nat option" where
  "digit_of c =
     (let n = (of_char c :: nat) in if 48 \<le> n \<and> n \<le> 57 then Some (n - 48) else None)"

fun parse_uint :: "nat \<Rightarrow> string \<Rightarrow> nat option" where
  "parse_uint acc [] = Some acc"
| "parse_uint acc (c # cs) =
     (case digit_of c of None \<Rightarrow> None | Some d \<Rightarrow> parse_uint (10 * acc + d) cs)"

text \<open>
  \<open>strconv.Atoi\<close>: an optional sign and one or more decimal digits; a syntax error for
  anything else and a range error outside \<open>int\<close>. \<open>None\<close> is a non-nil error.
\<close>

definition Atoi :: "string \<Rightarrow> go_int option" where
  "Atoi s =
     (let neg = (s \<noteq> [] \<and> hd s = CHR ''-'');
          ds = (if s \<noteq> [] \<and> (hd s = CHR ''-'' \<or> hd s = CHR ''+'') then tl s else s)
      in if ds = [] then None
         else case parse_uint 0 ds of
                None \<Rightarrow> None
              | Some n \<Rightarrow>
                  if neg then (if n \<le> 2 ^ 63 then Some (word_of_int (- int n)) else None)
                  else (if n < 2 ^ 63 then Some (word_of_nat n) else None))"

type_synonym Values = "string \<rightharpoonup> string list"

definition Get :: "Values \<Rightarrow> string \<Rightarrow> string" where
  "Get v key = (case v key of None \<Rightarrow> [] | Some [] \<Rightarrow> [] | Some (x # _) \<Rightarrow> x)"

section \<open>The query builder and the fetcher (repo-activity.go, lines 48 to 141)\<close>

record GitHubRepoActivityOptions =
  Repos :: "string list"
  DaysOld :: go_int
  APIEndpoint :: string
  Token :: string

text \<open>
  \<open>BuildQuery\<close> reads the clock once; \<open>now\<close> is that reading. \<open>fmt.Sprintf("repo:%s", s)\<close>
  is the prefix \<open>repo:\<close> before \<open>s\<close>. The product \<open>DaysOld*-1\<close> is a product of \<open>int\<close>s and
  wraps around.
\<close>

definition cutoff_day :: "Time \<Rightarrow> GitHubRepoActivityOptions \<Rightarrow> int" where
  "cutoff_day now options = AddDate_days now (sint (DaysOld options * (- 1)))"

definition BuildQuery :: "Time \<Rightarrow> GitHubRepoActivityOptions \<Rightarrow> string \<Rightarrow> string" where
  "BuildQuery now options issueType =
     (let repos = map (\<lambda>s. ''repo:'' @ s) (Repos options);
          created = Format_date (cutoff_day now options)
      in ''is:'' @ issueType @ '' '' @ Join repos '' '' @ '' created:>='' @ created)"

text \<open>
  The fields of \<open>github.Issue\<close> and \<open>github.User\<close> that \<open>FetchIssues\<close> reads. All of them
  are pointers in the client library.
\<close>

record User =
  Login :: "string option"
  user_HTMLURL :: "string option"

record Issue =
  issue_ID :: "int option"
  issue_Number :: "int option"
  issue_Title :: "string option"
  issue_User :: "User option"
  RepositoryURL :: "string option"
  issue_HTMLURL :: "string option"
  State :: "string option"
  CreatedAt :: "Time option"

text \<open>
  A call that does not produce its value either returns a Go \<open>error\<close> (its text is kept)
  or panics on a nil pointer.
\<close>

datatype failure = Err string | Panic

text \<open>
  The world outside the package: \<open>client.Search.Issues\<close> answers a query and a page number
  with an error text or with the page's issues and \<open>resp.NextPage\<close>, and may change the
  state \<open>'s\<close> of the backend with every request (so a repeated request need not get
  the same answer); \<open>durafmt.Parse(d).String()\<close> renders a duration; the clock is read as
  \<open>Now\<close> throughout one build.
\<close>

record 's world =
  Search_Issues :: "'s \<Rightarrow> string \<Rightarrow> int \<Rightarrow> (string + Issue list \<times> int) \<times> 's"
  durafmt_String :: "int \<Rightarrow> string"
  Now :: Time

text \<open>The duration handed to the formatter: \<open>time.Since(*issue.CreatedAt).Round(time.Hour * 24)\<close>.\<close>

definition age_duration :: "Time \<Rightarrow> Time \<Rightarrow> int" where
  "age_duration now created = Round (Sub now created) (Hour * 24)"

text \<open>
  The body of the inner loop for one issue. Dereferencing a nil \<open>CreatedAt\<close>, \<open>User\<close> or
  \<open>RepositoryURL\<close> panics.
\<close>

definition issue_info :: "'s world \<Rightarrow> Issue \<Rightarrow> failure + IssueInfo" where
  "issue_info w issue =
     (case CreatedAt issue of
        None \<Rightarrow> Inl Panic
      | Some created \<Rightarrow>
          (case issue_User issue of
             None \<Rightarrow> Inl Panic
           | Some user \<Rightarrow>
               (case RepositoryURL issue of
                  None \<Rightarrow> Inl Panic
                | Some url \<Rightarrow>
                    Inr \<lparr>ID = issue_ID issue,
                         Number = issue_Number issue,
                         Title = issue_Title issue,
                         Author = \<lparr>DisplayName = Login user, ProfileURL = user_HTMLURL user\<rparr>,
                         Repo = TrimPrefix url ''https://api.github.com/repos/'',
                         URL = issue_HTMLURL issue,
                         Status = State issue,
                         Age = durafmt_String w (age_duration (Now w) created)\<rparr>)))"

fun append_issues :: "'s world \<Rightarrow> IssueInfo list \<Rightarrow> Issue list \<Rightarrow> failure + IssueInfo list" where
  "append_issues w issueList [] = Inr issueList"
| "append_issues w issueList (issue # rest) =
     (case issue_info w issue of
        Inl f \<Rightarrow> Inl f
      | Inr info \<Rightarrow> append_issues w (issueList @ [info]) rest)"

text \<open>
  The outer loop \<open>for { ... }\<close> of \<open>FetchIssues\<close>, from the state at its head: the page
  to request, the records so far, the state of the backend. It need not end: \<open>None\<close> is
  a run that requests pages forever.
\<close>

partial_function (option) fetch_pages ::
  "'s world \<Rightarrow> string \<Rightarrow> int \<Rightarrow> IssueInfo list \<Rightarrow> 's \<Rightarrow> ((failure + IssueInfo list) \<times> 's) option"
where
  "fetch_pages w query page issueList s =
     (case Search_Issues w s query page of
        (Inl err, s') \<Rightarrow> Some (Inl (Err err), s')
      | (Inr (result, NextPage), s') \<Rightarrow>
          (case append_issues w issueList result of
             Inl f \<Rightarrow> Some (Inl f, s')
           | Inr issueList' \<Rightarrow>
               if NextPage = 0 then Some (Inr issueList', s')
               else fetch_pages w query NextPage issueList' s'))"

declare fetch_pages.simps [code]

definition FetchIssues ::
  "'s world \<Rightarrow> GitHubRepoActivityOptions \<Rightarrow> string \<Rightarrow> 's \<Rightarrow> ((failure + IssueInfo list) \<times> 's) option"
where
  "FetchIssues w options issueType s =
     fetch_pages w (BuildQuery (Now w) options issueType) 0 [] s"

section \<open>BuildReport (repo-activity.go, lines 143 to 174)\<close>

definition BuildReport ::
  "'s world \<Rightarrow> GitHubRepoActivityOptions \<Rightarrow> 's \<Rightarrow> ((failure + ActivityReport) \<times> 's) option"
where
  "BuildReport w options s =
     (case FetchIssues w options ''issue'' s of
        None \<Rightarrow> None
      | Some (Inl f, s1) \<Rightarrow> Some (Inl f, s1)
      | Some (Inr issues, s1) \<Rightarrow>
          (case FetchIssues w options ''pr'' s1 of
             None \<Rightarrow> None
           | Some (Inl f, s2) \<Rightarrow> Some (Inl f, s2)
           | Some (Inr prs, s2) \<Rightarrow> Some (Inr (aggregate issues prs), s2)))"

section \<open>The HTTP server (server/server.go)\<close>

definition defaultDays :: go_int where "defaultDays = 14"
definition defaultPort :: string where "defaultPort = ''3000''"

text \<open>The logger is left out of \<open>Options\<close> and \<open>server\<close>; of \<open>httpServer\<close> the address is kept.\<close>

record Options =
  opt_Repos :: "string list"
  opt_DaysOld :: go_int
  opt_APIEndpoint :: string
  opt_Token :: string
  Port :: string

text \<open>
  \<open>srv.options\<close> is a pointer to one options struct that lives as long as the server: the
  server value of the model carries it from one request to the next.
\<close>

record server =
  options :: GitHubRepoActivityOptions
  Addr :: string

definition NewServer :: "Options \<Rightarrow> server" where
  "NewServer opts =
     (let opts1 = (if opt_DaysOld opts = 0 then opts\<lparr>opt_DaysOld := defaultDays\<rparr> else opts);
          opts2 = (if Port opts1 = [] then opts1\<lparr>Port := defaultPort\<rparr> else opts1)
      in \<lparr>options = \<lparr>Repos = opt_Repos opts2, DaysOld = opt_DaysOld opts2,
                       APIEndpoint = opt_APIEndpoint opts2, Token = opt_Token opts2\<rparr>,
          Addr = '':'' @ Port opts2\<rparr>)"

text \<open>Of the request the handler reads \<open>r.URL.Query()\<close> (and logs host, method and path).\<close>

record Request =
  Query :: Values

text \<open>
  \<open>pageData.Report\<close> is declared as the bucket map; the handler stores the result of
  \<open>BuildReport\<close> in it, which is nil when the build failed. The model stores the bucket
  map of the report, and \<open>None\<close> for nil.
\<close>

record pageData =
  Days :: go_int
  pd_Repos :: "string list"
  pd_Report :: "repo_map option"

text \<open>
  What the handler writes to the \<open>http.ResponseWriter\<close>: the status code, once, and the
  body in pieces. A piece is a text, or the output of executing the page template on a
  \<open>pageData\<close> (the template engine is outside the repository, its output is kept
  symbolic). The first write without a status sets 200; a status after the first is
  ignored.
\<close>

datatype chunk = Text string | Page pageData

record ResponseWriter =
  status :: "nat option"
  body :: "chunk list"

definition new_response :: ResponseWriter where
  "new_response = \<lparr>status = None, body = []\<rparr>"

definition WriteHeader :: "ResponseWriter \<Rightarrow> nat \<Rightarrow> ResponseWriter" where
  "WriteHeader w code = (if status w = None then w\<lparr>status := Some code\<rparr> else w)"

definition Write :: "ResponseWriter \<Rightarrow> chunk \<Rightarrow> ResponseWriter" where
  "Write w c = (let w1 = WriteHeader w 200 in w1\<lparr>body := body w1 @ [c]\<rparr>)"

definition StatusInternalServerError :: nat where
  "StatusInternalServerError = 500"

text \<open>\<open>http.Error\<close> writes the status and then the text followed by a newline.\<close>

definition http_Error :: "ResponseWriter \<Rightarrow> string \<Rightarrow> nat \<Rightarrow> ResponseWriter" where
  "http_Error w msg code = Write (WriteHeader w code) (Text (msg @ [CHR 0x0A]))"

definition Execute :: "ResponseWriter \<Rightarrow> pageData \<Rightarrow> ResponseWriter" where
  "Execute w data = Write w (Page data)"

text \<open>A handler that panics writes no response; the server recovers and goes on.\<close>

datatype handled = Responded ResponseWriter | Panicked

text \<open>
  The handler \<open>Report\<close>, lines 102 to 128. Lines 102 to 109 store a parsed \<open>days\<close>
  parameter in \<open>srv.options\<close>. After \<open>http.Error\<close> (line 119) the handler does not
  return: lines 122 to 128 run in both cases.
\<close>

definition parse_days :: "server \<Rightarrow> Request \<Rightarrow> server" where
  "parse_days srv r =
     (let daysQuery = Get (Query r) ''days''
      in if daysQuery \<noteq> [] then
           (case Atoi daysQuery of
              Some days \<Rightarrow> srv\<lparr>options := (options srv)\<lparr>DaysOld := days\<rparr>\<rparr>
            | None \<Rightarrow> srv)
         else srv)"

definition Report :: "'s world \<Rightarrow> server \<Rightarrow> Request \<Rightarrow> 's \<Rightarrow> (server \<times> handled \<times> 's) option" where
  "Report wld srv r s =
     (let srv1 = parse_days srv r
      in case BuildReport wld (options srv1) s of
           None \<Rightarrow> None
         | Some (Inl Panic, s') \<Rightarrow> Some (srv1, Panicked, s')
         | Some (Inl (Err msg), s') \<Rightarrow>
             (let w = http_Error new_response msg StatusInternalServerError;
                  data = \<lparr>Days = DaysOld (options srv1), pd_Repos = Repos (options srv1),
                          pd_Report = None\<rparr>
              in Some (srv1, Responded (Execute w data), s'))
         | Some (Inr report, s') \<Rightarrow>
             (let data = \<lparr>Days = DaysOld (options srv1), pd_Repos = Repos (options srv1),
                          pd_Report = Some (RepoActivityReports report)\<rparr>
              in Some (srv1, Responded (Execute new_response data), s')))"

section \<open>Notions used to state the properties\<close>

text \<open>The records of one repository, in their order in the input.\<close>

definition of_repo :: "string \<Rightarrow> IssueInfo list \<Rightarrow> IssueInfo list" where
  "of_repo r xs = filter (\<lambda>x. Repo x = r) xs"








text \<open>
  One turn of the loop of \<open>FetchIssues\<close> that goes on to a further page: the request
  succeeds, no record panics, and \<open>NextPage\<close> is not 0. A loop state is the page to
  request, the records so far and the state of the backend.
\<close>

inductive next_page ::
  "'s world \<Rightarrow> string \<Rightarrow> int \<times> IssueInfo list \<times> 's \<Rightarrow> int \<times> IssueInfo list \<times> 's \<Rightarrow> bool"
  for w :: "'s world" and query :: string
where
  turn: "Search_Issues w s query page = (Inr (result, NextPage), s') \<Longrightarrow>
         append_issues w issueList result = Inr issueList' \<Longrightarrow>
         NextPage \<noteq> 0 \<Longrightarrow>
         next_page w query (page, issueList, s) (NextPage, issueList', s')"

section \<open>A scripted backend, to run the model\<close>

text \<open>
  The state of the scripted backend is the list of the answers it will still give: each
  request takes the first; when none is left the answer is an empty last page. The
  stand-in for the duration formatter prints whole days.
\<close>

type_synonym script = "(string + Issue list \<times> int) list"

definition scripted_search :: "script \<Rightarrow> string \<Rightarrow> int \<Rightarrow> (string + Issue list \<times> int) \<times> script" where
  "scripted_search s query page = (case s of [] \<Rightarrow> (Inr ([], 0), []) | a # rest \<Rightarrow> (a, rest))"

definition days_String :: "int \<Rightarrow> string" where
  "days_String d =
     (let n = d div (24 * Hour)
      in appendInt n 1 @ (if n = 1 then '' day'' else '' days''))"

text \<open>2026-10-31, 12:00 UTC.\<close>

definition example_now :: Time where
  "example_now = \<lparr>unixNano = 1793448000 * Second, zoneOffset = 0\<rparr>"

definition example_world :: "script world" where
  "example_world =
     \<lparr>Search_Issues = scripted_search, durafmt_String = days_String, Now = example_now\<rparr>"

text \<open>An issue of repository \<open>a/b\<close> created 36 hours before \<open>example_now\<close>.\<close>

definition example_issue :: Issue where
  "example_issue =
     \<lparr>issue_ID = Some 1, issue_Number = Some 7, issue_Title = Some ''t'',
      issue_User = Some \<lparr>Login = Some ''u'', user_HTMLURL = None\<rparr>,
      RepositoryURL = Some ''https://api.github.com/repos/a/b'',
      issue_HTMLURL = None, State = Some ''open'',
      CreatedAt = Some \<lparr>unixNano = 1793448000 * Second - 36 * Hour, zoneOffset = 0\<rparr>\<rparr>"

definition example_options :: GitHubRepoActivityOptions where
  "example_options = \<lparr>Repos = [''a/b''], DaysOld = 7, APIEndpoint = [], Token = []\<rparr>"

definition example_server :: server where
  "example_server =
     NewServer \<lparr>opt_Repos = [''a/b''], opt_DaysOld = 0, opt_APIEndpoint = [],
                opt_Token = [], Port = []\<rparr>"

text \<open>The record that the fetcher makes of \<open>example_issue\<close> in \<open>example_world\<close>.\<close>

definition example_info :: IssueInfo where
  "example_info =
     \<lparr>ID = Some 1, Number = Some 7, Title = Some ''t'',
      Author = \<lparr>DisplayName = Some ''u'', ProfileURL = None\<rparr>,
      Repo = ''a/b'', URL = None, Status = Some ''open'', Age = ''2 days''\<rparr>"

text \<open>
  A fetch in which a page request fails: the loop reaches, from its start, a state whose
  request the backend answers with an error, leaving the backend in state \<open>s'\<close>.
\<close>

definition fetch_fails ::
  "'s world \<Rightarrow> GitHubRepoActivityOptions \<Rightarrow> string \<Rightarrow> 's \<Rightarrow> string \<Rightarrow> 's \<Rightarrow> bool"
where
  "fetch_fails w opts issueType s0 err s' =
     (\<exists>page issueList s.
        (next_page w (BuildQuery (Now w) opts issueType))\<^sup>*\<^sup>* (0, [], s0) (page, issueList, s) \<and>
        Search_Issues w s (BuildQuery (Now w) opts issueType) page = (Inl err, s'))"


section \<open>Properties of the aggregation\<close>

lemma add_issue_lookup:
  "add_issue m i r =
     (if Repo i = r
      then (case m r of None \<Rightarrow> Some \<lparr>Issues = [i], PullRequests = []\<rparr>
            | Some b \<Rightarrow> Some (b\<lparr>Issues := Issues b @ [i]\<rparr>))
      else m r)"
  by (auto simp: add_issue_def ensure_bucket_def Let_def split: option.splits)

lemma add_pr_lookup:
  "add_pr m p r =
     (if Repo p = r
      then (case m r of None \<Rightarrow> Some \<lparr>Issues = [], PullRequests = [p]\<rparr>
            | Some b \<Rightarrow> Some (b\<lparr>PullRequests := PullRequests b @ [p]\<rparr>))
      else m r)"
  by (auto simp: add_pr_def ensure_bucket_def Let_def split: option.splits)

text \<open>The first loop from any map: the records of a repository are appended in order.\<close>

lemma foldl_add_issue_lookup:
  "foldl add_issue m xs r =
     (case m r of
        None \<Rightarrow> if of_repo r xs = [] then None
                else Some \<lparr>Issues = of_repo r xs, PullRequests = []\<rparr>
      | Some b \<Rightarrow> Some (b\<lparr>Issues := Issues b @ of_repo r xs\<rparr>))"
proof (induction xs arbitrary: m)
  case Nil
  show ?case by (simp add: of_repo_def split: option.splits)
next
  case (Cons x xs)
  have "foldl add_issue m (x # xs) r = foldl add_issue (add_issue m x) xs r" by simp
  also note Cons.IH [of "add_issue m x"]
  finally show ?case
    by (simp add: add_issue_lookup [of m x r] of_repo_def split: option.splits)
qed

lemma foldl_add_pr_lookup:
  "foldl add_pr m xs r =
     (case m r of
        None \<Rightarrow> if of_repo r xs = [] then None
                else Some \<lparr>Issues = [], PullRequests = of_repo r xs\<rparr>
      | Some b \<Rightarrow> Some (b\<lparr>PullRequests := PullRequests b @ of_repo r xs\<rparr>))"
proof (induction xs arbitrary: m)
  case Nil
  show ?case by (simp add: of_repo_def split: option.splits)
next
  case (Cons x xs)
  have "foldl add_pr m (x # xs) r = foldl add_pr (add_pr m x) xs r" by simp
  also note Cons.IH [of "add_pr m x"]
  finally show ?case
    by (simp add: add_pr_lookup [of m x r] of_repo_def split: option.splits)
qed

lemma group_records_lookup:
  "group_records issues prs r =
     (if of_repo r issues = [] \<and> of_repo r prs = [] then None
      else Some \<lparr>Issues = of_repo r issues, PullRequests = of_repo r prs\<rparr>)"
  by (simp add: group_records_def foldl_add_pr_lookup foldl_add_issue_lookup)

lemma of_repo_empty_iff: "of_repo r xs = [] \<longleftrightarrow> r \<notin> Repo ` set xs"
  by (auto simp: of_repo_def filter_empty_conv)

lemma dom_group_records:
  "dom (group_records issues prs) = Repo ` set issues \<union> Repo ` set prs"
  by (auto simp: dom_def group_records_lookup of_repo_empty_iff)




text \<open>
  Claim C8. A repository identifier that occurs in no issue record and in no pull-request
  record has no entry in the map of the report: the key is absent. The aggregation does
  not read the configured repository list, so this holds for configured repositories
  too.
\<close>

theorem no_bucket_without_records:
  "r \<notin> Repo ` set issues \<Longrightarrow> r \<notin> Repo ` set prs \<Longrightarrow>
   RepoActivityReports (aggregate issues prs) r = None \<and>
   r \<notin> dom (RepoActivityReports (aggregate issues prs))"
  by (simp add: aggregate_def dom_group_records group_records_lookup of_repo_empty_iff)

theorem no_bucket_without_records_witness:
  "''c/d'' \<notin> Repo ` set [example_info] \<and> ''c/d'' \<notin> Repo ` set [] \<and>
   RepoActivityReports (aggregate [example_info] []) ''c/d'' = None \<and>
   RepoActivityReports (aggregate [example_info] []) ''a/b''
     = Some \<lparr>Issues = [example_info], PullRequests = []\<rparr>"
proof -
  have a: "''c/d'' \<notin> Repo ` set [example_info]" by (simp add: example_info_def)
  have b: "''c/d'' \<notin> Repo ` set ([] :: IssueInfo list)" by simp
  have c: "RepoActivityReports (aggregate [example_info] []) ''a/b''
           = Some \<lparr>Issues = [example_info], PullRequests = []\<rparr>"
    by (simp add: aggregate_def group_records_lookup of_repo_def example_info_def)
  show ?thesis using no_bucket_without_records [OF a b] a c by simp
qed

section \<open>Properties of the query builder\<close>




















section \<open>Properties of the fetcher and of BuildReport\<close>

lemma fetch_pages_error:
  "Search_Issues w s query page = (Inl err, s') \<Longrightarrow>
   fetch_pages w query page issueList s = Some (Inl (Err err), s')"
  by (subst fetch_pages.simps) simp

lemma fetch_pages_last:
  "Search_Issues w s query page = (Inr (result, 0), s') \<Longrightarrow>
   append_issues w issueList result = Inr issueList' \<Longrightarrow>
   fetch_pages w query page issueList s = Some (Inr issueList', s')"
  by (subst fetch_pages.simps) simp

lemma fetch_pages_turn:
  "next_page w query (page, issueList, s) (page', issueList', s') \<Longrightarrow>
   fetch_pages w query page issueList s = fetch_pages w query page' issueList' s'"
  by (erule next_page.cases, subst fetch_pages.simps) simp

lemma fetch_pages_turns:
  "(next_page w query)\<^sup>*\<^sup>* a b \<Longrightarrow>
   (case a of (page, issueList, s) \<Rightarrow> fetch_pages w query page issueList s)
     = (case b of (page, issueList, s) \<Rightarrow> fetch_pages w query page issueList s)"
proof (induction rule: rtranclp_induct)
  case base
  show ?case by simp
next
  case (step y z)
  obtain p1 l1 s1 where y: "y = (p1, l1, s1)" by (cases y)
  obtain p2 l2 s2 where z: "z = (p2, l2, s2)" by (cases z)
  from step.hyps(2) have "fetch_pages w query p1 l1 s1 = fetch_pages w query p2 l2 s2"
    unfolding y z by (rule fetch_pages_turn)
  with step.IH show ?case by (simp add: y z)
qed

lemma FetchIssues_fails:
  assumes "fetch_fails w opts issueType s0 err s'"
  shows "FetchIssues w opts issueType s0 = Some (Inl (Err err), s')"
proof -
  let ?q = "BuildQuery (Now w) opts issueType"
  from assms obtain page issueList s where
    r: "(next_page w ?q)\<^sup>*\<^sup>* (0, [], s0) (page, issueList, s)" and
    e: "Search_Issues w s ?q page = (Inl err, s')"
    unfolding fetch_fails_def by blast
  have "fetch_pages w ?q 0 [] s0 = fetch_pages w ?q page issueList s"
    using fetch_pages_turns [OF r] by simp
  also have "\<dots> = Some (Inl (Err err), s')" using e by (rule fetch_pages_error)
  finally show ?thesis by (simp add: FetchIssues_def)
qed

text \<open>
  Claim C4. When a fetch reaches a page request that the backend answers with an error,
  whatever the earlier pages returned, \<open>FetchIssues\<close> returns that error and no record
  list (the records of the earlier pages are dropped), and the backend is left in the
  state right after the failing request: nothing is requested again. \<open>BuildReport\<close> then
  returns the error and no report, when the fetch of the issues fails, and when the
  fetch of the pull requests fails after the issues were fetched.
\<close>

theorem failed_page_fails_build:
  "(fetch_fails w opts issueType s0 err s' \<longrightarrow>
      FetchIssues w opts issueType s0 = Some (Inl (Err err), s')) \<and>
   (fetch_fails w opts ''issue'' s0 err s' \<longrightarrow>
      BuildReport w opts s0 = Some (Inl (Err err), s')) \<and>
   (FetchIssues w opts ''issue'' s0 = Some (Inr issues, s1) \<and>
    fetch_fails w opts ''pr'' s1 err s' \<longrightarrow>
      BuildReport w opts s0 = Some (Inl (Err err), s'))"
proof (intro conjI impI)
  assume "fetch_fails w opts issueType s0 err s'"
  then show "FetchIssues w opts issueType s0 = Some (Inl (Err err), s')"
    by (rule FetchIssues_fails)
next
  assume "fetch_fails w opts ''issue'' s0 err s'"
  then have "FetchIssues w opts ''issue'' s0 = Some (Inl (Err err), s')"
    by (rule FetchIssues_fails)
  then show "BuildReport w opts s0 = Some (Inl (Err err), s')"
    by (simp add: BuildReport_def)
next
  assume a: "FetchIssues w opts ''issue'' s0 = Some (Inr issues, s1) \<and>
             fetch_fails w opts ''pr'' s1 err s'"
  then have "FetchIssues w opts ''pr'' s1 = Some (Inl (Err err), s')"
    by (intro FetchIssues_fails) simp
  with a show "BuildReport w opts s0 = Some (Inl (Err err), s')"
    by (simp add: BuildReport_def)
qed

lemma example_issue_info: "issue_info example_world example_issue = Inr example_info"
  by code_simp

lemma example_append: "append_issues example_world [] [example_issue] = Inr [example_info]"
  by (simp add: example_issue_info)

lemma scripted_search_Cons [simp]: "Search_Issues example_world (a # rest) q p = (a, rest)"
  by (simp add: example_world_def scripted_search_def)

lemma scripted_search_Nil [simp]: "Search_Issues example_world [] q p = (Inr ([], 0), [])"
  by (simp add: example_world_def scripted_search_def)

lemma example_fetch_fails:
  "fetch_fails example_world opts issueType
     [Inr ([example_issue], 2), Inl ''rate limit'', Inr ([], 0)] ''rate limit'' [Inr ([], 0)]"
proof -
  let ?q = "BuildQuery (Now example_world) opts issueType"
  have "next_page example_world ?q
          (0, [], [Inr ([example_issue], 2), Inl ''rate limit'', Inr ([], 0)])
          (2, [example_info], [Inl ''rate limit'', Inr ([], 0)])"
    by (rule next_page.turn [OF _ example_append]) simp_all
  then have "(next_page example_world ?q)\<^sup>*\<^sup>*
          (0, [], [Inr ([example_issue], 2), Inl ''rate limit'', Inr ([], 0)])
          (2, [example_info], [Inl ''rate limit'', Inr ([], 0)])"
    by (rule r_into_rtranclp)
  moreover have "Search_Issues example_world [Inl ''rate limit'', Inr ([], 0)] ?q 2
                   = (Inl ''rate limit'', [Inr ([], 0)])"
    by simp
  ultimately show ?thesis unfolding fetch_fails_def by blast
qed

theorem failed_page_fails_build_witness:
  "fetch_fails example_world example_options ''issue''
     [Inr ([example_issue], 2), Inl ''rate limit'', Inr ([], 0)] ''rate limit'' [Inr ([], 0)] \<and>
   FetchIssues example_world example_options ''issue''
     [Inr ([example_issue], 2), Inl ''rate limit'', Inr ([], 0)]
     = Some (Inl (Err ''rate limit''), [Inr ([], 0)]) \<and>
   BuildReport example_world example_options
     [Inr ([example_issue], 2), Inl ''rate limit'', Inr ([], 0)]
     = Some (Inl (Err ''rate limit''), [Inr ([], 0)]) \<and>
   FetchIssues example_world example_options ''issue''
     [Inr ([], 0), Inr ([example_issue], 2), Inl ''rate limit'', Inr ([], 0)]
     = Some (Inr [], [Inr ([example_issue], 2), Inl ''rate limit'', Inr ([], 0)]) \<and>
   BuildReport example_world example_options
     [Inr ([], 0), Inr ([example_issue], 2), Inl ''rate limit'', Inr ([], 0)]
     = Some (Inl (Err ''rate limit''), [Inr ([], 0)])"
proof -
  note f = example_fetch_fails
  have ok: "FetchIssues example_world example_options ''issue''
              [Inr ([], 0), Inr ([example_issue], 2), Inl ''rate limit'', Inr ([], 0)]
            = Some (Inr [], [Inr ([example_issue], 2), Inl ''rate limit'', Inr ([], 0)])"
    unfolding FetchIssues_def by (rule fetch_pages_last [where result = "[]"]) simp_all
  show ?thesis
    using failed_page_fails_build
      [of example_world example_options "''issue''"
          "[Inr ([example_issue], 2), Inl ''rate limit'', Inr ([], 0)]"
          "''rate limit''" "[Inr ([], 0)]"]
      failed_page_fails_build
      [of example_world example_options "''issue''"
          "[Inr ([], 0), Inr ([example_issue], 2), Inl ''rate limit'', Inr ([], 0)]"
          "''rate limit''" "[Inr ([], 0)]" "[]"
          "[Inr ([example_issue], 2), Inl ''rate limit'', Inr ([], 0)]"]
      f [of example_options "''issue''"] f [of example_options "''pr''"] ok
    by simp
qed

section \<open>Properties of the age of a record\<close>








section \<open>Properties of the handler\<close>

lemma example_fetch_empty: "FetchIssues example_world opts issueType [] = Some (Inr [], [])"
  unfolding FetchIssues_def by (rule fetch_pages_last [where result = "[]"]) simp_all

lemma example_build_empty:
  "BuildReport example_world opts [] = Some (Inr (aggregate [] []), [])"
  by (simp add: BuildReport_def example_fetch_empty)

lemma example_build_error:
  "BuildReport example_world opts (Inl err # rest) = Some (Inl (Err err), rest)"
proof -
  have "FetchIssues example_world opts ''issue'' (Inl err # rest) = Some (Inl (Err err), rest)"
    unfolding FetchIssues_def by (rule fetch_pages_error) simp
  then show ?thesis by (simp add: BuildReport_def)
qed

lemma parse_days_none:
  "Atoi (Get (Query r) ''days'') = None \<Longrightarrow> parse_days srv r = srv"
  by (simp add: parse_days_def Let_def)

lemma Atoi_Nil: "Atoi [] = None"
  by (simp add: Atoi_def)


lemma Report_server: "Report w srv r s = Some (srv', out, s') \<Longrightarrow> srv' = parse_days srv r"
  by (auto simp: Report_def Let_def split: option.splits sum.splits failure.splits prod.splits)


text \<open>
  Claim C9. A request whose \<open>days\<close> parameter does not parse as an integer is handled
  exactly as the same request without the parameter: the configuration of the server is
  unchanged, the report is built with the day count stored in it, and when that build
  succeeds the response has status 200 and the page for that day count.
\<close>

theorem unparseable_days_ignored:
  assumes "Atoi (Get (Query r) ''days'') = None"
  shows "Report w srv r s = Report w srv (r\<lparr>Query := (Query r)(''days'' := None)\<rparr>) s \<and>
         (\<forall>srv' out s'. Report w srv r s = Some (srv', out, s') \<longrightarrow> srv' = srv) \<and>
         (\<forall>report s'. BuildReport w (options srv) s = Some (Inr report, s') \<longrightarrow>
            Report w srv r s =
              Some (srv,
                    Responded \<lparr>status = Some 200,
                               body = [Page \<lparr>Days = DaysOld (options srv),
                                             pd_Repos = Repos (options srv),
                                             pd_Report = Some (RepoActivityReports report)\<rparr>]\<rparr>,
                    s'))"
proof -
  have p: "parse_days srv r = srv" using assms by (rule parse_days_none)
  have p': "parse_days srv (r\<lparr>Query := (Query r)(''days'' := None)\<rparr>) = srv"
    by (rule parse_days_none) (simp add: Get_def Atoi_Nil)
  have a: "Report w srv r s = Report w srv (r\<lparr>Query := (Query r)(''days'' := None)\<rparr>) s"
    by (simp add: Report_def p p')
  have b: "\<forall>srv' out s'. Report w srv r s = Some (srv', out, s') \<longrightarrow> srv' = srv"
    using Report_server [of w srv r s] p by auto
  have c: "\<forall>report s'. BuildReport w (options srv) s = Some (Inr report, s') \<longrightarrow>
            Report w srv r s =
              Some (srv,
                    Responded \<lparr>status = Some 200,
                               body = [Page \<lparr>Days = DaysOld (options srv),
                                             pd_Repos = Repos (options srv),
                                             pd_Report = Some (RepoActivityReports report)\<rparr>]\<rparr>,
                    s')"
    by (simp add: Report_def p Let_def Execute_def Write_def WriteHeader_def new_response_def)
  show ?thesis using a b c by blast
qed

lemma Atoi_abc: "Atoi ''abc'' = None"
  by (simp add: Atoi_def digit_of_def Let_def)


lemma example_server_options:
  "options example_server = \<lparr>Repos = [''a/b''], DaysOld = 14, APIEndpoint = [], Token = []\<rparr>"
  by (simp add: example_server_def NewServer_def Let_def defaultDays_def)

theorem unparseable_days_ignored_witness:
  "Atoi (Get (Query \<lparr>Query = [''days'' \<mapsto> [''abc'']]\<rparr>) ''days'') = None \<and>
   Report example_world example_server \<lparr>Query = [''days'' \<mapsto> [''abc'']]\<rparr> []
     = Some (example_server,
             Responded \<lparr>status = Some 200,
                        body = [Page \<lparr>Days = 14, pd_Repos = [''a/b''],
                                      pd_Report = Some (RepoActivityReports (aggregate [] []))\<rparr>]\<rparr>,
             [])"
proof -
  have a: "Atoi (Get (Query \<lparr>Query = [''days'' \<mapsto> [''abc'']]\<rparr>) ''days'') = None"
    by (simp add: Get_def Atoi_abc)
  have b: "BuildReport example_world (options example_server) []
           = Some (Inr (aggregate [] []), [])"
    by (rule example_build_empty)
  from unparseable_days_ignored [OF a, of example_world example_server "[]"]
  have "\<forall>report s'. BuildReport example_world (options example_server) [] = Some (Inr report, s') \<longrightarrow>
            Report example_world example_server \<lparr>Query = [''days'' \<mapsto> [''abc'']]\<rparr> [] =
              Some (example_server,
                    Responded \<lparr>status = Some 200,
                               body = [Page \<lparr>Days = DaysOld (options example_server),
                                             pd_Repos = Repos (options example_server),
                                             pd_Report = Some (RepoActivityReports report)\<rparr>]\<rparr>,
                    s')"
    by (elim conjE)
  with b have "Report example_world example_server \<lparr>Query = [''days'' \<mapsto> [''abc'']]\<rparr> [] =
              Some (example_server,
                    Responded \<lparr>status = Some 200,
                               body = [Page \<lparr>Days = DaysOld (options example_server),
                                             pd_Repos = Repos (options example_server),
                                             pd_Report = Some (RepoActivityReports (aggregate [] []))\<rparr>]\<rparr>,
                    [])"
    by blast
  then show ?thesis using a by (simp add: example_server_options)
qed




lemma Report_error:
  assumes "BuildReport w (options (parse_days srv r)) s = Some (Inl (Err msg), s')"
  shows "Report w srv r s =
           Some (parse_days srv r,
                 Responded \<lparr>status = Some 500,
                            body = [Text (msg @ [CHR 0x0A]),
                                    Page \<lparr>Days = DaysOld (options (parse_days srv r)),
                                          pd_Repos = Repos (options (parse_days srv r)),
                                          pd_Report = None\<rparr>]\<rparr>,
                 s')"
  using assms
  by (simp add: Report_def Let_def Execute_def Write_def WriteHeader_def http_Error_def
        new_response_def StatusInternalServerError_def)

text \<open>
  Claim C7. When the build fails with the error \<open>API rate limit exceeded\<close>, the handler
  writes status 500 and the error text, and then, since it does not return after
  \<open>http.Error\<close>, executes the page template on a page without report and writes its
  output after the error text. The claim asks for the error text alone.
\<close>

theorem error_response_also_renders_page:
  "Report example_world example_server \<lparr>Query = Map.empty\<rparr> [Inl ''API rate limit exceeded'']
     = Some (example_server,
             Responded \<lparr>status = Some 500,
                        body = [Text (''API rate limit exceeded'' @ [CHR 0x0A]),
                                Page \<lparr>Days = 14, pd_Repos = [''a/b''], pd_Report = None\<rparr>]\<rparr>,
             [])"
proof -
  have p: "parse_days example_server \<lparr>Query = Map.empty\<rparr> = example_server"
    by (rule parse_days_none) (simp add: Get_def Atoi_Nil)
  have "BuildReport example_world (options (parse_days example_server \<lparr>Query = Map.empty\<rparr>))
          [Inl ''API rate limit exceeded''] = Some (Inl (Err ''API rate limit exceeded''), [])"
    by (rule example_build_error)
  from Report_error [OF this] show ?thesis
    by (simp add: p example_server_options)
qed

end
